theory Spec2Isabelle
  imports Main "HOL-Library.Word"
begin

section \<open>Strings of the host language\<close>

text \<open>
  The program is TypeScript: a string is a sequence of 16-bit code units, and the regular
  expressions of \<^verbatim>\<open>splitCommand\<close> (written without the \<^verbatim>\<open>u\<close> flag) work on code units.
  A string is therefore a list of 16-bit words. \<open>js\<close> embeds an ASCII literal.
\<close>

type_synonym jschar = "16 word"
type_synonym jsstring = "jschar list"

definition js :: "string \<Rightarrow> jsstring" where
  "js s = map of_char s"

definition dquote :: jschar where "dquote = 0x22"
definition squote :: jschar where "squote = 0x27"
definition bslash :: jschar where "bslash = 0x5C"
definition char_n :: jschar where "char_n = 0x6E"
definition newline :: jschar where "newline = 0x0A"

text \<open>
  The class \<^verbatim>\<open>\s\<close> of an ECMAScript regular expression: the WhiteSpace and LineTerminator
  code points (TAB, LF, VT, FF, CR, SP, NBSP, U+1680, U+2000 to U+200A, U+2028, U+2029,
  U+202F, U+205F, U+3000, U+FEFF).
\<close>

definition is_space :: "jschar \<Rightarrow> bool" where
  "is_space c \<longleftrightarrow>
     c = 0x09 \<or> c = 0x0A \<or> c = 0x0B \<or> c = 0x0C \<or> c = 0x0D \<or> c = 0x20 \<or> c = 0xA0 \<or>
     c = 0x1680 \<or> (0x2000 \<le> c \<and> c \<le> 0x200A) \<or> c = 0x2028 \<or> c = 0x2029 \<or>
     c = 0x202F \<or> c = 0x205F \<or> c = 0x3000 \<or> c = 0xFEFF"

text \<open>\<^verbatim>\<open>String.prototype.includes\<close>: \<open>str_includes p s\<close> holds when \<open>p\<close> occurs in \<open>s\<close>.\<close>

fun starts_with :: "jsstring \<Rightarrow> jsstring \<Rightarrow> bool" where
  "starts_with [] s = True"
| "starts_with (p # ps) [] = False"
| "starts_with (p # ps) (c # cs) = (p = c \<and> starts_with ps cs)"

fun str_includes :: "jsstring \<Rightarrow> jsstring \<Rightarrow> bool" where
  "str_includes p [] = (p = [])"
| "str_includes p (c # cs) = (starts_with p (c # cs) \<or> str_includes p cs)"

section \<open>The tokenizer: splitCommand\<close>

text \<open>
  \<^verbatim>\<open>const regex = /[^\s"']+|"([^"]*)"|'([^']*)'/g;\<close>

  A match is the array \<^verbatim>\<open>[match[0], match[1], match[2]]\<close>; a capture group that did not
  take part in the match is \<^verbatim>\<open>undefined\<close>, here \<open>None\<close>.
\<close>

record rmatch =
  m0 :: jsstring
  m1 :: "jsstring option"
  m2 :: "jsstring option"

text \<open>The class \<^verbatim>\<open>[^\s"']\<close> of the first alternative.\<close>

definition bare_char :: "jschar \<Rightarrow> bool" where
  "bare_char c \<longleftrightarrow> \<not> is_space c \<and> c \<noteq> dquote \<and> c \<noteq> squote"

text \<open>
  One attempt of the regular expression at the start of the input, the alternatives in
  their written order. The first is greedy and nothing follows it, so it takes the longest
  run. A quoted alternative needs its closing quote: the class inside excludes the quote,
  so the content is everything up to the next quote, and without one the alternative fails.
  The result is the match and the input after it.
\<close>

fun match_at :: "jsstring \<Rightarrow> (rmatch \<times> jsstring) option" where
  "match_at [] = None"
| "match_at (c # cs) =
     (if bare_char c then
        Some (\<lparr>m0 = takeWhile bare_char (c # cs), m1 = None, m2 = None\<rparr>,
              dropWhile bare_char (c # cs))
      else if c = dquote \<and> dquote \<in> set cs then
        Some (\<lparr>m0 = dquote # takeWhile (\<lambda>x. x \<noteq> dquote) cs @ [dquote],
               m1 = Some (takeWhile (\<lambda>x. x \<noteq> dquote) cs), m2 = None\<rparr>,
              tl (dropWhile (\<lambda>x. x \<noteq> dquote) cs))
      else if c = squote \<and> squote \<in> set cs then
        Some (\<lparr>m0 = squote # takeWhile (\<lambda>x. x \<noteq> squote) cs @ [squote],
               m1 = None, m2 = Some (takeWhile (\<lambda>x. x \<noteq> squote) cs)\<rparr>,
              tl (dropWhile (\<lambda>x. x \<noteq> squote) cs))
      else None)"

text \<open>
  \<^verbatim>\<open>regex.exec(command)\<close> of a global expression: the argument is the input from
  \<^verbatim>\<open>lastIndex\<close> on; the search moves forward one code unit at a time until an attempt
  succeeds, and yields \<^verbatim>\<open>null\<close> at the end of the input. The input after the match
  stands for the new \<^verbatim>\<open>lastIndex\<close>.
\<close>

fun regex_exec :: "jsstring \<Rightarrow> (rmatch \<times> jsstring) option" where
  "regex_exec [] = None"
| "regex_exec (c # cs) =
     (case match_at (c # cs) of
        Some r \<Rightarrow> Some r
      | None \<Rightarrow> regex_exec cs)"

text \<open>
  \<^verbatim>\<open>const arg = match[1] || match[2] || match[0];\<close>
  An undefined group and the empty string are both falsy.
\<close>

definition pick_arg :: "rmatch \<Rightarrow> jsstring" where
  "pick_arg m =
     (case m1 m of
        Some (x # xs) \<Rightarrow> x # xs
      | _ \<Rightarrow> (case m2 m of
                Some (y # ys) \<Rightarrow> y # ys
              | _ \<Rightarrow> m0 m))"

text \<open>
  \<^verbatim>\<open>arg.replace(/\\n/g, '\n')\<close>: every occurrence of backslash followed by the letter n,
  found from left to right, becomes one line feed.
\<close>

fun replace_bsn :: "jsstring \<Rightarrow> jsstring" where
  "replace_bsn (a # b # cs) =
     (if a = bslash \<and> b = char_n then newline # replace_bsn cs
      else a # replace_bsn (b # cs))"
| "replace_bsn cs = cs"

lemma match_at_shorter:
  "match_at s = Some (m, rest) \<Longrightarrow> length rest < length s"
proof (cases s)
  case Nil
  assume "match_at s = Some (m, rest)"
  with Nil show ?thesis by simp
next
  case (Cons c cs)
  assume a: "match_at s = Some (m, rest)"
  have d: "length (dropWhile P cs) \<le> length cs" for P :: "jschar \<Rightarrow> bool"
    by (rule length_dropWhile_le)
  have t: "length (tl (dropWhile P cs)) \<le> length cs" for P :: "jschar \<Rightarrow> bool"
    using d [of P] by simp
  from a Cons show ?thesis
    using d [of bare_char] t [of "\<lambda>x. x \<noteq> dquote"] t [of "\<lambda>x. x \<noteq> squote"]
    by (auto split: if_splits simp: less_Suc_eq_le)
qed

lemma regex_exec_shorter:
  "regex_exec s = Some (m, rest) \<Longrightarrow> length rest < length s"
proof (induction s)
  case Nil
  then show ?case by simp
next
  case (Cons c cs)
  show ?case
  proof (cases "match_at (c # cs)")
    case None
    with Cons show ?thesis by simp
  next
    case (Some r)
    with Cons.prems have "match_at (c # cs) = Some (m, rest)" by simp
    then show ?thesis by (rule match_at_shorter)
  qed
qed

text \<open>
  The loop \<^verbatim>\<open>while ((match = regex.exec(command)) !== null) { ... args.push(processed); }\<close>
  with the rest of the input and the array \<^verbatim>\<open>args\<close> as its state.
\<close>

function splitCommand_loop :: "jsstring \<Rightarrow> jsstring list \<Rightarrow> jsstring list" where
  "splitCommand_loop rest args =
     (case regex_exec rest of
        None \<Rightarrow> args
      | Some (m, rest') \<Rightarrow> splitCommand_loop rest' (args @ [replace_bsn (pick_arg m)]))"
  by pat_completeness auto
termination
  by (relation "measure (\<lambda>(rest, args). length rest)") (auto dest: regex_exec_shorter)

declare splitCommand_loop.simps [simp del]

definition splitCommand :: "jsstring \<Rightarrow> jsstring list" where
  "splitCommand command = splitCommand_loop command []"

lemma splitCommand_loop_null:
  "regex_exec rest = None \<Longrightarrow> splitCommand_loop rest args = args"
  by (subst splitCommand_loop.simps) simp

lemma splitCommand_loop_match:
  "regex_exec rest = Some (m, rest') \<Longrightarrow>
   splitCommand_loop rest args = splitCommand_loop rest' (args @ [replace_bsn (pick_arg m)])"
  by (subst splitCommand_loop.simps) simp

section \<open>The policy gate: validateCommand\<close>

text \<open>
  A value the handler works with is a string or \<^verbatim>\<open>undefined\<close>: the first element of an
  empty token array is \<^verbatim>\<open>undefined\<close>. \<open>template\<close> is the text a template literal
  \<^verbatim>\<open>${v}\<close> inserts for it.
\<close>

datatype jsval = Undefined | Str jsstring

fun template :: "jsval \<Rightarrow> jsstring" where
  "template Undefined = js ''undefined''"
| "template (Str s) = s"

text \<open>
  The array literal handed to \<^verbatim>\<open>new Set([...])\<close>, in the order of the source, with its
  second \<^verbatim>\<open>'mkfs'\<close> entry.
\<close>

definition BLACKLISTED_entries :: "string list" where
  "BLACKLISTED_entries =
     [''rm'', ''rmdir'', ''del'',
      ''format'', ''mkfs'', ''dd'',
      ''chmod'', ''chown'',
      ''sudo'', ''su'',
      ''exec'', ''eval'',
      ''write'', ''wall'',
      ''shutdown'', ''reboot'', ''init'',
      ''mkfs'']"

definition BLACKLISTED_COMMANDS :: "jsval set" where
  "BLACKLISTED_COMMANDS = set (map (\<lambda>e. Str (js e)) BLACKLISTED_entries)"

text \<open>\<^verbatim>\<open>return !BLACKLISTED_COMMANDS.has(baseCommand);\<close>\<close>

definition validateCommand :: "jsval \<Rightarrow> bool" where
  "validateCommand baseCommand \<longleftrightarrow> baseCommand \<notin> BLACKLISTED_COMMANDS"

section \<open>The request handler of CallToolRequestSchema\<close>

text \<open>
  A thrown value. \<open>Error m\<close> is \<^verbatim>\<open>new Error(m)\<close>. \<open>Rejection t\<close> is a value thrown or
  rejected by one of the two packages the handler calls, known by the text \<open>t\<close> that
  \<^verbatim>\<open>String(error)\<close> gives for it.
\<close>

datatype thrown = Error jsstring | Rejection jsstring

fun String_of :: "thrown \<Rightarrow> jsstring" where
  "String_of (Error m) = js ''Error: '' @ m"
| "String_of (Rejection t) = t"

record CommandResult =
  stdout :: jsstring
  stderr :: jsstring

text \<open>
  The host: the two imported packages, whose code is not part of the program. Awaiting
  \<^verbatim>\<open>commandExists(c)\<close> throws or yields a value, of which the handler uses the truthiness
  only; awaiting \<^verbatim>\<open>execa(c, args, {shell: true, env: process.env})\<close> throws or yields the
  captured output.
\<close>

record host =
  commandExists :: "jsval \<Rightarrow> thrown + bool"
  execa :: "jsval \<Rightarrow> jsstring list \<Rightarrow> thrown + CommandResult"

text \<open>What the handler has done to the host and to the policy gate, in order.\<close>

datatype call =
    CommandExistsCall jsval
  | ValidateCommandCall jsval
  | ExecaCall jsval "jsstring list"

record content_item =
  item_type :: jsstring
  item_text :: jsstring
  item_mimeType :: jsstring

record response =
  content :: "content_item list"

text \<open>
  \<^verbatim>\<open>request.params.name\<close> and \<^verbatim>\<open>request.params.arguments?.command as string\<close>; the
  command is taken to be a string, as the cast says.
\<close>

record request =
  params_name :: jsstring
  params_command :: jsstring

definition text_response :: "jsstring \<Rightarrow> response" where
  "text_response t =
     \<lparr>content = [\<lparr>item_type = js ''text'', item_text = t, item_mimeType = js ''text/plain''\<rparr>]\<rparr>"

text \<open>\<^verbatim>\<open>const [shell_command, ...args] = splitCommand(command);\<close>\<close>

fun destructure :: "jsstring list \<Rightarrow> jsval \<times> jsstring list" where
  "destructure [] = (Undefined, [])"
| "destructure (t # ts) = (Str t, ts)"

text \<open>
  The body of the \<^verbatim>\<open>try\<close> block: the calls made, and the value thrown or the response
  returned. \<^verbatim>\<open>stdout || stderr\<close> is the standard error when the standard output is empty.
\<close>

definition try_block :: "host \<Rightarrow> jsstring \<Rightarrow> call list \<times> (thrown + response)" where
  "try_block h command =
     (case destructure (splitCommand command) of (shell_command, args) \<Rightarrow>
        (case commandExists h shell_command of
           Inl e \<Rightarrow> ([CommandExistsCall shell_command], Inl e)
         | Inr found \<Rightarrow>
             if \<not> found then
               ([CommandExistsCall shell_command],
                Inl (Error (js ''Command not found: '' @ template shell_command)))
             else if \<not> validateCommand shell_command then
               ([CommandExistsCall shell_command, ValidateCommandCall shell_command],
                Inl (Error (js ''Command not allowed: '' @ template shell_command)))
             else
               (case execa h shell_command args of
                  Inl e \<Rightarrow>
                    ([CommandExistsCall shell_command, ValidateCommandCall shell_command,
                      ExecaCall shell_command args], Inl e)
                | Inr r \<Rightarrow>
                    ([CommandExistsCall shell_command, ValidateCommandCall shell_command,
                      ExecaCall shell_command args],
                     Inr (text_response (if stdout r \<noteq> [] then stdout r else stderr r))))))"

text \<open>
  The handler: an unknown tool name throws before the \<^verbatim>\<open>try\<close>; everything thrown inside
  the \<^verbatim>\<open>try\<close> is caught and returned as the text \<^verbatim>\<open>String(error)\<close>.
\<close>

definition handler :: "host \<Rightarrow> request \<Rightarrow> call list \<times> (thrown + response)" where
  "handler h req =
     (if params_name req \<noteq> js ''run_command'' then
        ([], Inl (Error (js ''Unknown tool: '' @ params_name req)))
      else
        (case try_block h (params_command req) of
           (calls, Inr resp) \<Rightarrow> (calls, Inr resp)
         | (calls, Inl error) \<Rightarrow> (calls, Inr (text_response (String_of error)))))"

text \<open>Whether a child process was launched, and whether the policy gate was asked.\<close>

fun is_execa :: "call \<Rightarrow> bool" where
  "is_execa (ExecaCall c args) = True"
| "is_execa _ = False"

fun is_validate :: "call \<Rightarrow> bool" where
  "is_validate (ValidateCommandCall c) = True"
| "is_validate _ = False"

definition launched :: "call list \<Rightarrow> bool" where
  "launched calls = list_ex is_execa calls"

definition policy_evaluated :: "call list \<Rightarrow> bool" where
  "policy_evaluated calls = list_ex is_validate calls"

text \<open>The text of the single content item of a response.\<close>

fun response_text :: "thrown + response \<Rightarrow> jsstring option" where
  "response_text (Inr \<lparr>content = [i]\<rparr>) = Some (item_text i)"
| "response_text _ = None"

section \<open>The matches behind the tokens\<close>

text \<open>
  The successive results of \<^verbatim>\<open>regex.exec\<close> in the loop of \<^verbatim>\<open>splitCommand\<close>, and
  whether a string still holds a backslash followed by the letter n.
\<close>

function regex_matches :: "jsstring \<Rightarrow> rmatch list" where
  "regex_matches rest =
     (case regex_exec rest of
        None \<Rightarrow> []
      | Some (m, rest') \<Rightarrow> m # regex_matches rest')"
  by pat_completeness auto
termination
  by (relation "measure length") (auto dest: regex_exec_shorter)

declare regex_matches.simps [simp del]

fun has_bsn :: "jsstring \<Rightarrow> bool" where
  "has_bsn (a # b # cs) = ((a = bslash \<and> b = char_n) \<or> has_bsn (b # cs))"
| "has_bsn cs = False"

section \<open>The denylist as the specification lists it, and an example host\<close>

text \<open>
  The seventeen names the specification gives for the denylist, to be compared with the
  set built from the source's array.
\<close>

definition claimed_denylist :: "string list" where
  "claimed_denylist =
     [''rm'', ''rmdir'', ''del'', ''format'', ''mkfs'', ''dd'', ''chmod'', ''chown'', ''sudo'',
      ''su'', ''exec'', ''eval'', ''write'', ''wall'', ''shutdown'', ''reboot'', ''init'']"

text \<open>
  A host to run the handler on. \<^verbatim>\<open>echo\<close> and \<^verbatim>\<open>rm\<close> are on its search path and nothing
  else is. Its existence check behaves as the promise form of the \<^verbatim>\<open>command-exists\<close>
  package is documented to: the promise resolves to the command's name, a truthy value,
  when the command is found, and is rejected with \<^verbatim>\<open>null\<close> when it is not; it never
  resolves to a falsy value. For \<^verbatim>\<open>undefined\<close> the package's file check refuses the path
  with Node's TypeError and the promise is rejected with that error (the wording is
  Node's; what matters is that the handler returns it as it is). \<^verbatim>\<open>echo\<close> prints its
  arguments joined by blanks, and any other launch fails.
\<close>

definition node_path_type_error :: jsstring where
  "node_path_type_error =
     js ''TypeError [ERR_INVALID_ARG_TYPE]: The '' @ [dquote] @ js ''path'' @ [dquote] @
     js '' argument must be of type string or an instance of Buffer or URL. Received undefined''"

fun join_blank :: "jsstring list \<Rightarrow> jsstring" where
  "join_blank [] = []"
| "join_blank [a] = a"
| "join_blank (a # b # r) = a @ 0x20 # join_blank (b # r)"

definition example_host :: host where
  "example_host =
     \<lparr>commandExists = (\<lambda>c.
         if c = Str (js ''echo'') \<or> c = Str (js ''rm'') then Inr True
         else if c = Undefined then Inl (Rejection node_path_type_error)
         else Inl (Rejection (js ''null''))),
      execa = (\<lambda>c args.
         if c = Str (js ''echo'')
         then Inr \<lparr>stdout = join_blank args, stderr = []\<rparr>
         else Inl (Rejection (js ''Error: Command failed'')))\<rparr>"

text \<open>A request for the tool \<^verbatim>\<open>run_command\<close> with the given command string.\<close>

definition run_command :: "jsstring \<Rightarrow> request" where
  "run_command command = \<lparr>params_name = js ''run_command'', params_command = command\<rparr>"

section \<open>Properties of the tokenizer\<close>

lemmas ascii_simps = js_def dquote_def squote_def bslash_def char_n_def newline_def

lemmas tokenizer_simps = splitCommand_def splitCommand_loop_null splitCommand_loop_match
  bare_char_def is_space_def pick_arg_def

lemma starts_with_append: "starts_with p (p @ b)"
  by (induction p) auto

lemma str_includes_here: "str_includes p (p @ b)"
  using starts_with_append [of p b] by (cases "p @ b") auto

lemma str_includes_append: "str_includes p (a @ p @ b)"
  by (induction a) (auto simp: str_includes_here)

lemma is_space_not_quote: "is_space c \<Longrightarrow> c \<noteq> dquote \<and> c \<noteq> squote"
  by (auto simp: is_space_def dquote_def squote_def)

lemma match_at_space: "is_space c \<Longrightarrow> match_at (c # cs) = None"
  using is_space_not_quote [of c] by (simp add: bare_char_def)

lemma regex_exec_blank: "list_all is_space s \<Longrightarrow> regex_exec s = None"
  by (induction s) (simp_all add: match_at_space del: match_at.simps)

lemma splitCommand_blank: "list_all is_space s \<Longrightarrow> splitCommand s = []"
  by (simp add: splitCommand_def splitCommand_loop_null regex_exec_blank)

lemma splitCommand_loop_matches:
  "splitCommand_loop rest args = args @ map (\<lambda>m. replace_bsn (pick_arg m)) (regex_matches rest)"
proof (induction rest args rule: splitCommand_loop.induct)
  case (1 rest args)
  show ?case
  proof (cases "regex_exec rest")
    case None
    then show ?thesis
      by (simp add: splitCommand_loop_null regex_matches.simps [of rest])
  next
    case (Some r)
    obtain m rest' where r: "r = (m, rest')" by (cases r)
    with Some have e: "regex_exec rest = Some (m, rest')" by simp
    from "1.IH" [OF e refl]
    have "splitCommand_loop rest' (args @ [replace_bsn (pick_arg m)]) =
          (args @ [replace_bsn (pick_arg m)]) @
          map (\<lambda>m. replace_bsn (pick_arg m)) (regex_matches rest')" .
    with e show ?thesis
      by (simp add: splitCommand_loop_match regex_matches.simps [of rest])
  qed
qed

lemma replace_bsn_head:
  "replace_bsn (b # cs) = y # ys \<Longrightarrow> y = b \<or> y = newline"
  by (cases cs) (auto split: if_splits)

lemma replace_bsn_clean: "\<not> has_bsn (replace_bsn s)"
proof (induction s rule: replace_bsn.induct)
  case (1 a b cs)
  show ?case
  proof (cases "a = bslash \<and> b = char_n")
    case True
    with 1 show ?thesis
      by (cases "replace_bsn cs") (auto simp: newline_def bslash_def)
  next
    case False
    then have step: "replace_bsn (a # b # cs) = a # replace_bsn (b # cs)" by auto
    from False 1 have ih: "\<not> has_bsn (replace_bsn (b # cs))" by simp
    show ?thesis
    proof (cases "replace_bsn (b # cs)")
      case Nil
      with step show ?thesis by simp
    next
      case (Cons y ys)
      from replace_bsn_head [OF Cons] have "y = b \<or> y = newline" .
      with False ih Cons step show ?thesis
        by (auto simp: newline_def char_n_def)
    qed
  qed
qed simp_all

lemma replace_bsn_split:
  "replace_bsn (u @ [bslash, char_n] @ v) = replace_bsn u @ [newline] @ replace_bsn v"
  by (induction u rule: replace_bsn.induct) (simp_all add: bslash_def char_n_def)

text \<open>
  C7. Every token is the chosen text of one match with each backslash followed by the
  letter n replaced by a line feed: the token list is the list of matches, each passed
  through the replacement; no token holds a backslash followed by n any more; the
  replacement turns an occurrence of the pair into one line feed, whatever stands around
  it. The input \<^verbatim>\<open>echo "line1\nline2"\<close> (backslash and n written out) gives a second token
  with a line feed between \<^verbatim>\<open>line1\<close> and \<^verbatim>\<open>line2\<close>.
\<close>

theorem splitCommand_newlines:
  "splitCommand command = map (\<lambda>m. replace_bsn (pick_arg m)) (regex_matches command) \<and>
   list_all (\<lambda>t. \<not> has_bsn t) (splitCommand command) \<and>
   replace_bsn (u @ [bslash, char_n] @ v) = replace_bsn u @ [newline] @ replace_bsn v \<and>
   splitCommand (js ''echo '' @ [dquote] @ js ''line1'' @ [bslash, char_n] @ js ''line2'' @ [dquote]) =
     [js ''echo'', js ''line1'' @ [newline] @ js ''line2'']"
proof -
  have m: "splitCommand command = map (\<lambda>m. replace_bsn (pick_arg m)) (regex_matches command)"
    by (simp add: splitCommand_def splitCommand_loop_matches)
  have c: "list_all (\<lambda>t. \<not> has_bsn t) (splitCommand command)"
    unfolding m by (simp add: list_all_iff replace_bsn_clean)
  have e: "splitCommand (js ''echo '' @ [dquote] @ js ''line1'' @ [bslash, char_n] @ js ''line2'' @ [dquote]) =
     [js ''echo'', js ''line1'' @ [newline] @ js ''line2'']"
    by (simp add: tokenizer_simps ascii_simps)
  from m c e replace_bsn_split show ?thesis by blast
qed

theorem splitCommand_newlines_witness:
  "splitCommand (js ''a'' @ [bslash, char_n] @ js ''b '' @ [squote] @ js ''c d'' @ [bslash, char_n, squote]) =
     [js ''a'' @ [newline] @ js ''b'', js ''c d'' @ [newline]] \<and>
   list_all (\<lambda>t. \<not> has_bsn t)
     (splitCommand (js ''a'' @ [bslash, char_n] @ js ''b '' @ [squote] @ js ''c d'' @ [bslash, char_n, squote])) \<and>
   replace_bsn (js ''a'' @ [bslash, char_n] @ js ''b'') = replace_bsn (js ''a'') @ [newline] @ replace_bsn (js ''b'')"
proof -
  let ?s = "js ''a'' @ [bslash, char_n] @ js ''b '' @ [squote] @ js ''c d'' @ [bslash, char_n, squote]"
  have t: "splitCommand ?s = [js ''a'' @ [newline] @ js ''b'', js ''c d'' @ [newline]]"
    by (simp add: tokenizer_simps ascii_simps)
  from t splitCommand_newlines [of ?s "js ''a''" "js ''b''"] show ?thesis
    by blast
qed

text \<open>
  C8. The input \<^verbatim>\<open>echo "hello world"\<close> gives exactly the two tokens \<^verbatim>\<open>echo\<close> and
  \<^verbatim>\<open>hello world\<close>: the quotes are gone and the blank inside them is kept in one token.
\<close>

theorem splitCommand_quoted_example:
  "splitCommand (js ''echo '' @ [dquote] @ js ''hello world'' @ [dquote]) =
     [js ''echo'', js ''hello world'']"
  by (simp add: tokenizer_simps ascii_simps)

text \<open>
  C10. A quoted substring with nothing inside keeps its quotes: the input \<^verbatim>\<open>echo ""\<close>
  gives the tokens \<^verbatim>\<open>echo\<close> and the two quote characters, since the empty capture group is
  falsy and the whole match is taken.
\<close>

theorem splitCommand_empty_quotes_kept:
  "splitCommand (js ''echo '' @ [dquote, dquote]) = [js ''echo'', [dquote, dquote]]"
  by (simp add: tokenizer_simps ascii_simps)

section \<open>Properties of the policy gate\<close>

lemmas policy_simps = validateCommand_def BLACKLISTED_COMMANDS_def BLACKLISTED_entries_def

text \<open>
  C9. \<^verbatim>\<open>validateCommand\<close> is false exactly on the seventeen names rm, rmdir, del, format,
  mkfs, dd, chmod, chown, sudo, su, exec, eval, write, wall, shutdown, reboot and init,
  which are pairwise distinct, and true on every other value, among them \<^verbatim>\<open>RM\<close> and
  \<^verbatim>\<open>/bin/rm\<close>. The source's array has eighteen entries; without its last one, the second
  \<^verbatim>\<open>mkfs\<close>, it gives the same set.
\<close>

theorem validateCommand_exact:
  "validateCommand v = (v \<notin> set (map (\<lambda>e. Str (js e)) claimed_denylist)) \<and>
   distinct (map (\<lambda>e. Str (js e)) claimed_denylist) \<and>
   length claimed_denylist = 17 \<and>
   validateCommand (Str (js ''RM'')) \<and>
   validateCommand (Str (js ''/bin/rm'')) \<and>
   length BLACKLISTED_entries = 18 \<and>
   set (map (\<lambda>e. Str (js e)) (butlast BLACKLISTED_entries)) = BLACKLISTED_COMMANDS"
proof -
  have s: "BLACKLISTED_COMMANDS = set (map (\<lambda>e. Str (js e)) claimed_denylist)"
    by (auto simp: BLACKLISTED_COMMANDS_def BLACKLISTED_entries_def claimed_denylist_def)
  have d: "distinct (map (\<lambda>e. Str (js e)) claimed_denylist)"
    by (simp add: claimed_denylist_def js_def)
  have l: "length claimed_denylist = 17" "length BLACKLISTED_entries = 18"
    by (simp_all add: claimed_denylist_def BLACKLISTED_entries_def)
  have u: "validateCommand (Str (js ''RM''))" "validateCommand (Str (js ''/bin/rm''))"
    by (simp_all add: policy_simps js_def)
  have b: "set (map (\<lambda>e. Str (js e)) (butlast BLACKLISTED_entries)) = BLACKLISTED_COMMANDS"
    by (auto simp: BLACKLISTED_COMMANDS_def BLACKLISTED_entries_def)
  from s d l u b show ?thesis
    by (simp add: validateCommand_def)
qed

section \<open>Properties of the handler\<close>

lemma destructure_cons: "destructure (c # args) = (Str c, args)"
  by simp

lemma handler_run:
  "params_name req = js ''run_command'' \<Longrightarrow>
   handler h req =
     (case try_block h (params_command req) of
        (calls, Inr resp) \<Rightarrow> (calls, Inr resp)
      | (calls, Inl error) \<Rightarrow> (calls, Inr (text_response (String_of error))))"
  by (simp add: handler_def)

lemma handler_returns:
  "params_name req = js ''run_command'' \<Longrightarrow> \<exists>t. snd (handler h req) = Inr (text_response t)"
  by (auto simp: handler_run try_block_def split: prod.splits sum.splits)

lemma try_block_not_found:
  assumes "destructure (splitCommand command) = (c, args)"
    and "commandExists h c = Inr False"
  shows "try_block h command =
      ([CommandExistsCall c], Inl (Error (js ''Command not found: '' @ template c)))"
  using assms by (simp add: try_block_def)

lemma try_block_rejected:
  assumes "destructure (splitCommand command) = (c, args)"
    and "commandExists h c = Inl e"
  shows "try_block h command = ([CommandExistsCall c], Inl e)"
  using assms by (simp add: try_block_def)

lemma try_block_not_allowed:
  assumes "destructure (splitCommand command) = (c, args)"
    and "commandExists h c = Inr True"
    and "\<not> validateCommand c"
  shows "try_block h command =
      ([CommandExistsCall c, ValidateCommandCall c],
       Inl (Error (js ''Command not allowed: '' @ template c)))"
  using assms by (simp add: try_block_def)

lemma try_block_executed:
  assumes "destructure (splitCommand command) = (c, args)"
    and "commandExists h c = Inr True"
    and "validateCommand c"
    and "execa h c args = Inr r"
  shows "try_block h command =
      ([CommandExistsCall c, ValidateCommandCall c, ExecaCall c args],
       Inr (text_response (if stdout r \<noteq> [] then stdout r else stderr r)))"
  using assms by (simp add: try_block_def)

lemma try_block_denied_not_launched:
  assumes "destructure (splitCommand command) = (c, args)"
    and "\<not> validateCommand c"
  shows "\<not> launched (fst (try_block h command))"
  using assms by (auto simp: try_block_def launched_def split: sum.splits)

lemma handler_calls:
  "params_name req = js ''run_command'' \<Longrightarrow>
   fst (handler h req) = fst (try_block h (params_command req))"
  by (auto simp: handler_run split: prod.splits sum.splits)

lemma handler_rejected:
  assumes "params_name req = js ''run_command''"
    and "destructure (splitCommand (params_command req)) = (c, args)"
    and "commandExists h c = Inl e"
  shows "handler h req = ([CommandExistsCall c], Inr (text_response (String_of e)))"
  using try_block_rejected [OF assms(2) assms(3)] handler_run [OF assms(1), of h]
  by simp

text \<open>
  C1, as stated, fails: the existence check comes before the policy gate, so a denylisted
  first token that the host does not have never reaches the gate, and the response is what
  the existence check leaves. On the example host, which has no \<^verbatim>\<open>del\<close>, the command
  \<^verbatim>\<open>del x\<close> has the denylisted first token \<^verbatim>\<open>del\<close>; the existence check is rejected
  with \<^verbatim>\<open>null\<close> and the response text is \<^verbatim>\<open>null\<close>, which does not contain
  \<^verbatim>\<open>Command not allowed\<close>.
\<close>

theorem denylisted_counterexample:
  "splitCommand (js ''del x'') = [js ''del'', js ''x''] \<and>
   Str (js ''del'') \<in> BLACKLISTED_COMMANDS \<and>
   handler example_host (run_command (js ''del x'')) =
     ([CommandExistsCall (Str (js ''del''))], Inr (text_response (js ''null''))) \<and>
   \<not> str_includes (js ''Command not allowed'') (js ''null'')"
proof -
  have t: "splitCommand (js ''del x'') = [js ''del'', js ''x'']"
    by (simp add: tokenizer_simps ascii_simps)
  have v: "Str (js ''del'') \<in> BLACKLISTED_COMMANDS"
    by (simp add: BLACKLISTED_COMMANDS_def BLACKLISTED_entries_def)
  have h: "handler example_host (run_command (js ''del x'')) =
     ([CommandExistsCall (Str (js ''del''))], Inr (text_response (js ''null'')))"
    by (simp add: handler_def run_command_def try_block_def example_host_def
        tokenizer_simps ascii_simps)
  have i: "\<not> str_includes (js ''Command not allowed'') (js ''null'')"
    by (simp add: js_def)
  from t v h i show ?thesis by simp
qed

text \<open>
  C1, amended. For every invocation of \<^verbatim>\<open>run_command\<close> whose first token is a denylisted
  name, the child process is never launched; and when the existence check reports that
  token as found, the response text is \<^verbatim>\<open>Error: Command not allowed: \<close> followed by the
  name, so it contains \<^verbatim>\<open>Command not allowed\<close>.
\<close>

theorem denylisted_never_launched:
  assumes "params_name req = js ''run_command''"
    and "splitCommand (params_command req) = c # args"
    and "Str c \<in> BLACKLISTED_COMMANDS"
  shows "\<not> launched (fst (handler h req)) \<and>
         (commandExists h (Str c) = Inr True \<longrightarrow>
            snd (handler h req) = Inr (text_response (js ''Error: Command not allowed: '' @ c)) \<and>
            str_includes (js ''Command not allowed'') (js ''Error: Command not allowed: '' @ c))"
proof -
  from assms(2) have d: "destructure (splitCommand (params_command req)) = (Str c, args)"
    by simp
  from assms(3) have v: "\<not> validateCommand (Str c)"
    by (simp add: validateCommand_def)
  have n: "\<not> launched (fst (handler h req))"
    using try_block_denied_not_launched [OF d v] handler_calls [OF assms(1)] by simp
  have i: "str_includes (js ''Command not allowed'') (js ''Error: Command not allowed: '' @ c)"
    using str_includes_append [of "js ''Command not allowed''" "js ''Error: ''" "js '': '' @ c"]
    by (simp add: js_def)
  have r: "snd (handler h req) = Inr (text_response (js ''Error: Command not allowed: '' @ c))"
    if "commandExists h (Str c) = Inr True"
    using try_block_not_allowed [OF d that v] handler_run [OF assms(1), of h]
    by (simp add: js_def)
  from n i r show ?thesis by blast
qed

theorem denylisted_never_launched_witness:
  "splitCommand (js ''rm -rf x'') = [js ''rm'', js ''-rf'', js ''x''] \<and>
   Str (js ''rm'') \<in> BLACKLISTED_COMMANDS \<and>
   commandExists example_host (Str (js ''rm'')) = Inr True \<and>
   \<not> launched (fst (handler example_host (run_command (js ''rm -rf x'')))) \<and>
   snd (handler example_host (run_command (js ''rm -rf x''))) =
     Inr (text_response (js ''Error: Command not allowed: '' @ js ''rm''))"
proof -
  have n: "params_name (run_command (js ''rm -rf x'')) = js ''run_command''"
    by (simp add: run_command_def)
  have t: "splitCommand (params_command (run_command (js ''rm -rf x''))) = js ''rm'' # [js ''-rf'', js ''x'']"
    by (simp add: run_command_def tokenizer_simps ascii_simps)
  have v: "Str (js ''rm'') \<in> BLACKLISTED_COMMANDS"
    by (simp add: BLACKLISTED_COMMANDS_def BLACKLISTED_entries_def)
  have e: "commandExists example_host (Str (js ''rm'')) = Inr True"
    by (simp add: example_host_def)
  from t have t': "splitCommand (js ''rm -rf x'') = [js ''rm'', js ''-rf'', js ''x'']"
    by (simp add: run_command_def)
  from denylisted_never_launched [OF n t v, of example_host] e t' v show ?thesis
    by blast
qed

text \<open>
  C2 fails on the code. The handler means to answer a first token that does not resolve
  with \<^verbatim>\<open>Command not found\<close>, but it tests the awaited value of \<^verbatim>\<open>commandExists\<close> for
  falsiness, and for a missing command the promise is rejected instead: the guard is never
  taken, the rejection is caught, and the response is its text. On the example host the
  command \<^verbatim>\<open>frobnicate --now\<close>, whose first token does not resolve, is answered \<^verbatim>\<open>null\<close>,
  which does not contain \<^verbatim>\<open>Command not found\<close>. The other half of the claim holds there:
  the existence check is the only call made, so the policy gate is not reached and nothing
  is launched.
\<close>

theorem missing_command_answered_null:
  "splitCommand (js ''frobnicate --now'') = [js ''frobnicate'', js ''--now''] \<and>
   commandExists example_host (Str (js ''frobnicate'')) = Inl (Rejection (js ''null'')) \<and>
   handler example_host (run_command (js ''frobnicate --now'')) =
     ([CommandExistsCall (Str (js ''frobnicate''))], Inr (text_response (js ''null''))) \<and>
   \<not> str_includes (js ''Command not found'') (js ''null'') \<and>
   \<not> policy_evaluated (fst (handler example_host (run_command (js ''frobnicate --now'')))) \<and>
   \<not> launched (fst (handler example_host (run_command (js ''frobnicate --now''))))"
proof -
  have t: "splitCommand (js ''frobnicate --now'') = [js ''frobnicate'', js ''--now'']"
    by (simp add: tokenizer_simps ascii_simps)
  have e: "commandExists example_host (Str (js ''frobnicate'')) = Inl (Rejection (js ''null''))"
    by (simp add: example_host_def js_def)
  have h: "handler example_host (run_command (js ''frobnicate --now'')) =
     ([CommandExistsCall (Str (js ''frobnicate''))], Inr (text_response (js ''null'')))"
    by (simp add: handler_def run_command_def try_block_def example_host_def
        tokenizer_simps ascii_simps)
  have i: "\<not> str_includes (js ''Command not found'') (js ''null'')"
    by (simp add: js_def)
  from t e h i show ?thesis
    by (simp add: policy_evaluated_def launched_def)
qed

text \<open>
  C3 fails on the code, by the same defect as C2. A command of whitespace alone gives no
  token, so the executable is \<^verbatim>\<open>undefined\<close>, and the handler means to answer
  \<^verbatim>\<open>Command not found: undefined\<close>; but the existence check is rejected for
  \<^verbatim>\<open>undefined\<close>, the guard is never taken, and the response is the text of the rejection.
  On the example host the command made of a blank, a tab, a no-break space and a line feed
  has no token and is answered with Node's TypeError text, which holds no
  \<^verbatim>\<open>ommand not found\<close> in either case of its first letter. The handler does not throw,
  and it launches nothing.
\<close>

theorem blank_command_answered_type_error:
  "list_all is_space [0x20, 0x09, 0xA0, 0x0A] \<and>
   splitCommand [0x20, 0x09, 0xA0, 0x0A] = [] \<and>
   commandExists example_host Undefined = Inl (Rejection node_path_type_error) \<and>
   handler example_host (run_command [0x20, 0x09, 0xA0, 0x0A]) =
     ([CommandExistsCall Undefined], Inr (text_response node_path_type_error)) \<and>
   \<not> str_includes (js ''ommand not found'') node_path_type_error"
proof -
  have b: "list_all is_space [0x20, 0x09, 0xA0, 0x0A]"
    by (simp add: is_space_def)
  from b have t: "splitCommand [0x20, 0x09, 0xA0, 0x0A] = []"
    by (rule splitCommand_blank)
  have e: "commandExists example_host Undefined = Inl (Rejection node_path_type_error)"
    by (simp add: example_host_def)
  have n: "params_name (run_command [0x20, 0x09, 0xA0, 0x0A]) = js ''run_command''"
    by (simp add: run_command_def)
  from t have d: "destructure (splitCommand (params_command (run_command [0x20, 0x09, 0xA0, 0x0A]))) =
      (Undefined, [])"
    by (simp add: run_command_def)
  from handler_rejected [OF n d e]
  have h: "handler example_host (run_command [0x20, 0x09, 0xA0, 0x0A]) =
     ([CommandExistsCall Undefined], Inr (text_response node_path_type_error))"
    by simp
  have i: "\<not> str_includes (js ''ommand not found'') node_path_type_error"
    by (simp add: node_path_type_error_def js_def dquote_def)
  from b t e h i show ?thesis by blast
qed

text \<open>
  C4. For every invocation of \<^verbatim>\<open>run_command\<close>, on any host and whatever happens, the
  handler's response is a list of exactly one item with type \<^verbatim>\<open>text\<close>, a text and the
  mimeType \<^verbatim>\<open>text/plain\<close>; when the command was executed with success, the text is the
  captured standard output, or the captured standard error when the standard output is
  empty.
\<close>

theorem response_shape:
  assumes "params_name req = js ''run_command''"
  shows "(\<exists>t. snd (handler h req) =
            Inr \<lparr>content = [\<lparr>item_type = js ''text'', item_text = t,
                               item_mimeType = js ''text/plain''\<rparr>]\<rparr>) \<and>
         (destructure (splitCommand (params_command req)) = (c, args) \<and>
          commandExists h c = Inr True \<and> validateCommand c \<and> execa h c args = Inr r \<longrightarrow>
            response_text (snd (handler h req)) =
              Some (if stdout r = [] then stderr r else stdout r))"
proof -
  from handler_returns [OF assms, of h]
  have a: "\<exists>t. snd (handler h req) =
            Inr \<lparr>content = [\<lparr>item_type = js ''text'', item_text = t,
                               item_mimeType = js ''text/plain''\<rparr>]\<rparr>"
    by (simp add: text_response_def)
  have b: "response_text (snd (handler h req)) =
              Some (if stdout r = [] then stderr r else stdout r)"
    if "destructure (splitCommand (params_command req)) = (c, args)"
      and "commandExists h c = Inr True" and "validateCommand c" and "execa h c args = Inr r"
    using try_block_executed [OF that] handler_run [OF assms, of h]
    by (simp add: text_response_def)
  from a b show ?thesis by blast
qed

theorem response_shape_witness:
  "params_name (run_command (js ''echo'')) = js ''run_command'' \<and>
   destructure (splitCommand (params_command (run_command (js ''echo'')))) = (Str (js ''echo''), []) \<and>
   commandExists (example_host\<lparr>execa := \<lambda>c args. Inr \<lparr>stdout = [], stderr = js ''warn''\<rparr>\<rparr>)
     (Str (js ''echo'')) = Inr True \<and>
   validateCommand (Str (js ''echo'')) \<and>
   response_text
     (snd (handler (example_host\<lparr>execa := \<lambda>c args. Inr \<lparr>stdout = [], stderr = js ''warn''\<rparr>\<rparr>)
        (run_command (js ''echo'')))) = Some (js ''warn'')"
proof -
  let ?h = "example_host\<lparr>execa := \<lambda>c args. Inr \<lparr>stdout = [], stderr = js ''warn''\<rparr>\<rparr>"
  let ?r = "\<lparr>stdout = [], stderr = js ''warn''\<rparr>"
  have n: "params_name (run_command (js ''echo'')) = js ''run_command''"
    by (simp add: run_command_def)
  have d: "destructure (splitCommand (params_command (run_command (js ''echo'')))) =
      (Str (js ''echo''), [])"
    by (simp add: run_command_def tokenizer_simps ascii_simps)
  have e: "commandExists ?h (Str (js ''echo'')) = Inr True"
    by (simp add: example_host_def)
  have v: "validateCommand (Str (js ''echo''))"
    by (simp add: policy_simps js_def)
  have x: "execa ?h (Str (js ''echo'')) [] = Inr ?r"
    by simp
  from response_shape [OF n, of ?h "Str (js ''echo'')" "[]" ?r] d e v x
  have "response_text (snd (handler ?h (run_command (js ''echo'')))) = Some (js ''warn'')"
    by simp
  with n d e v show ?thesis by blast
qed

text \<open>
  C5. The handler throws exactly when the requested tool name is not \<^verbatim>\<open>run_command\<close>;
  it then throws \<^verbatim>\<open>Error("Unknown tool: <name>")\<close> without calling anything, and for
  \<^verbatim>\<open>run_command\<close> it never throws.
\<close>

theorem unknown_tool_throws:
  "isl (snd (handler h req)) = (params_name req \<noteq> js ''run_command'') \<and>
   (params_name req \<noteq> js ''run_command'' \<longrightarrow>
      handler h req = ([], Inl (Error (js ''Unknown tool: '' @ params_name req))))"
proof (cases "params_name req = js ''run_command''")
  case True
  from handler_returns [OF True, of h] True show ?thesis by auto
next
  case False
  then show ?thesis by (simp add: handler_def)
qed

theorem unknown_tool_throws_witness:
  "js ''list_files'' \<noteq> js ''run_command'' \<and>
   handler example_host \<lparr>params_name = js ''list_files'', params_command = js ''echo hi''\<rparr> =
     ([], Inl (Error (js ''Unknown tool: '' @ js ''list_files''))) \<and>
   \<not> isl (snd (handler example_host (run_command (js ''echo hi''))))"
proof -
  have d: "js ''list_files'' \<noteq> js ''run_command''"
    by (simp add: js_def)
  from d unknown_tool_throws
    [of example_host "\<lparr>params_name = js ''list_files'', params_command = js ''echo hi''\<rparr>"]
  have a: "handler example_host \<lparr>params_name = js ''list_files'', params_command = js ''echo hi''\<rparr> =
     ([], Inl (Error (js ''Unknown tool: '' @ js ''list_files'')))"
    by simp
  from unknown_tool_throws [of example_host "run_command (js ''echo hi'')"]
  have b: "\<not> isl (snd (handler example_host (run_command (js ''echo hi''))))"
    by (simp add: run_command_def)
  from d a b show ?thesis by blast
qed

text \<open>
  C6. On a host that has \<^verbatim>\<open>echo\<close> and where running \<^verbatim>\<open>echo\<close> with the one argument
  \<^verbatim>\<open>hi\<close> captures the standard output \<^verbatim>\<open>hi\<close>, with or without a final line feed,
  invoking \<^verbatim>\<open>run_command\<close> with the command \<^verbatim>\<open>echo hi\<close> runs exactly that and returns one
  content item whose text is that output and whose mimeType is \<^verbatim>\<open>text/plain\<close>.
\<close>

theorem echo_hi:
  assumes "commandExists h (Str (js ''echo'')) = Inr True"
    and "execa h (Str (js ''echo'')) [js ''hi''] = Inr r"
    and "stdout r = js ''hi'' \<or> stdout r = js ''hi'' @ [newline]"
  shows "handler h (run_command (js ''echo hi'')) =
           ([CommandExistsCall (Str (js ''echo'')), ValidateCommandCall (Str (js ''echo'')),
             ExecaCall (Str (js ''echo'')) [js ''hi'']],
            Inr \<lparr>content = [\<lparr>item_type = js ''text'', item_text = stdout r,
                               item_mimeType = js ''text/plain''\<rparr>]\<rparr>)"
proof -
  have n: "params_name (run_command (js ''echo hi'')) = js ''run_command''"
    by (simp add: run_command_def)
  have d: "destructure (splitCommand (params_command (run_command (js ''echo hi'')))) =
      (Str (js ''echo''), [js ''hi''])"
    by (simp add: run_command_def tokenizer_simps ascii_simps)
  have v: "validateCommand (Str (js ''echo''))"
    by (simp add: policy_simps js_def)
  from assms(3) have o: "stdout r \<noteq> []"
    by (auto simp: js_def)
  from try_block_executed [OF d assms(1) v assms(2)] handler_run [OF n, of h] o
  show ?thesis
    by (simp add: text_response_def)
qed

theorem echo_hi_witness:
  "commandExists example_host (Str (js ''echo'')) = Inr True \<and>
   execa example_host (Str (js ''echo'')) [js ''hi''] = Inr \<lparr>stdout = js ''hi'', stderr = []\<rparr> \<and>
   snd (handler example_host (run_command (js ''echo hi''))) =
     Inr \<lparr>content = [\<lparr>item_type = js ''text'', item_text = js ''hi'',
                        item_mimeType = js ''text/plain''\<rparr>]\<rparr>"
proof -
  have e: "commandExists example_host (Str (js ''echo'')) = Inr True"
    by (simp add: example_host_def)
  have x: "execa example_host (Str (js ''echo'')) [js ''hi''] = Inr \<lparr>stdout = js ''hi'', stderr = []\<rparr>"
    by (simp add: example_host_def)
  have s: "stdout \<lparr>stdout = js ''hi'', stderr = []\<rparr> = js ''hi'' \<or>
           stdout \<lparr>stdout = js ''hi'', stderr = []\<rparr> = js ''hi'' @ [newline]"
    by simp
  from echo_hi [OF e x s] e x show ?thesis
    by simp
qed

end
